theory Spec2Isabelle
  imports Main
begin

section \<open>The notebook and its exceptions\<close>

text \<open>
  The notebook \<^verbatim>\<open>teacher/2_dealing_with_class_imbalance.py\<close> is a sequence of cells. Its own
  code is the dataset wrapper \<^verbatim>\<open>NpArrayDataset\<close>, the network template \<^verbatim>\<open>model_fn\<close>, the
  index hints of the splitting cell and the handlers attached to the training engine.
  Everything else is a call into numpy, torch or ignite; those calls are parameters of
  the definitions below.

  An exception is a value: a computation that may raise returns \<open>error + 'a\<close>, with
  \<open>Inl\<close> for the exception that leaves the function.
\<close>

datatype error =
    IndexError
  | KeyError string
  | LibraryError string

section \<open>The dataset wrapper\<close>

text \<open>
  \<^verbatim>\<open>
  class NpArrayDataset(Dataset):
      def __init__(self, images, labels, image_transforms=None, label_transforms=None):
          self.images = images
          self.labels = labels
          self.image_transforms = image_transforms
          self.label_transforms = label_transforms
  \<close>
  The object has four mutable fields. \<^verbatim>\<open>images\<close> and \<^verbatim>\<open>labels\<close> hold references to
  objects (numpy arrays, by the annotation), of type \<open>'o\<close>. A transform is a Python
  callable or \<^verbatim>\<open>None\<close>; the field holds a reference to the callable (\<open>fref\<close>), and a
  table \<open>calls\<close> gives the callable behind each reference.

  The objects live in a memory of type \<open>'m\<close>: the contents of the arrays and of whatever
  else the libraries and the callables reach. A world is the memory together with the
  fields of the dataset object.
\<close>

type_synonym fref = nat

record 'o NpArrayDataset =
  images :: 'o
  labels :: 'o
  image_transforms :: "fref option"
  label_transforms :: "fref option"

record ('m, 'o) world =
  memory :: 'm
  dataset :: "'o NpArrayDataset"

text \<open>
  The three library operations the class uses, each reading the memory as it is at the
  time of the call: \<open>np_shape0 m a\<close> is \<^verbatim>\<open>a.shape[0]\<close>; \<open>np_getitem m a index\<close> is
  \<^verbatim>\<open>a[index]\<close>, the object numpy returns (a copy of a scalar, or a view that shares the
  memory of \<open>a\<close>) or the exception; \<open>torch_tensor m x\<close> is \<^verbatim>\<open>torch.tensor(x)\<close>, a new tensor
  with a copy of what \<open>x\<close> holds in \<open>m\<close>, or the exception. None of them changes an
  object that exists.
\<close>

record ('m, 'o) nplib =
  np_shape0 :: "'m \<Rightarrow> 'o \<Rightarrow> error + nat"
  np_getitem :: "'m \<Rightarrow> 'o \<Rightarrow> int \<Rightarrow> error + 'o"
  torch_tensor :: "'m \<Rightarrow> 'o \<Rightarrow> error + 'o"

text \<open>
  A callable receives its argument, an object, and the world as it is at the time of
  the call; it returns an object or raises, and it may leave the world changed: the
  contents of the arrays (also through the view it is handed) and the fields of the
  dataset object.
\<close>

type_synonym ('m, 'o) callable =
  "'o \<Rightarrow> ('m, 'o) world \<Rightarrow> (error + 'o) \<times> ('m, 'o) world"

definition NpArrayDataset_init ::
  "'o \<Rightarrow> 'o \<Rightarrow> fref option \<Rightarrow> fref option \<Rightarrow> 'o NpArrayDataset" where
  "NpArrayDataset_init imgs lbls img_tf lbl_tf =
     \<lparr>images = imgs, labels = lbls, image_transforms = img_tf, label_transforms = lbl_tf\<rparr>"

text \<open>
  \<^verbatim>\<open>
      def __len__(self):
          return self.images.shape[0]
  \<close>
\<close>

definition NpArrayDataset_len :: "('m, 'o) nplib \<Rightarrow> ('m, 'o) world \<Rightarrow> error + nat" where
  "NpArrayDataset_len np w = np_shape0 np (memory w) (images (dataset w))"

text \<open>
  \<^verbatim>\<open>
      def __getitem__(self, index: int):
          x = self.images[index]
          y = self.labels[index]
          if self.image_transforms is not None:
              x = self.image_transforms(x)
          else:
              x = torch.tensor(x)
          if self.label_transforms is not None:
              y = self.label_transforms(y)
          else:
              y = torch.tensor(y)
          return x, y
  \<close>
  \<open>x0\<close> and \<open>y0\<close> are the objects the two indexings return. \<open>y0\<close> is obtained before
  the image transform is called and used after it: the label transform receives that
  object in the world the image transform left, and \<^verbatim>\<open>torch.tensor\<close> copies what the
  object holds in the memory of that world. The result is the returned pair or the
  exception, together with the world after the call.
\<close>

definition NpArrayDataset_getitem ::
  "('m, 'o) nplib \<Rightarrow> (fref \<Rightarrow> ('m, 'o) callable) \<Rightarrow> ('m, 'o) world \<Rightarrow> int
     \<Rightarrow> (error + 'o \<times> 'o) \<times> ('m, 'o) world" where
  "NpArrayDataset_getitem np calls w index =
     (case np_getitem np (memory w) (images (dataset w)) index of
        Inl e \<Rightarrow> (Inl e, w)
      | Inr x0 \<Rightarrow>
         (case np_getitem np (memory w) (labels (dataset w)) index of
            Inl e \<Rightarrow> (Inl e, w)
          | Inr y0 \<Rightarrow>
             (case (case image_transforms (dataset w) of
                      Some f \<Rightarrow> calls f x0 w
                    | None \<Rightarrow> (torch_tensor np (memory w) x0, w)) of
                (Inl e, w1) \<Rightarrow> (Inl e, w1)
              | (Inr x, w1) \<Rightarrow>
                 (case (case label_transforms (dataset w1) of
                          Some g \<Rightarrow> calls g y0 w1
                        | None \<Rightarrow> (torch_tensor np (memory w1) y0, w1)) of
                    (Inl e, w2) \<Rightarrow> (Inl e, w2)
                  | (Inr y, w2) \<Rightarrow> (Inr (x, y), w2)))))"

text \<open>A callable is pure when no call of it changes the world.\<close>

definition pure_callable :: "('m, 'o) callable \<Rightarrow> bool" where
  "pure_callable c = (\<forall>x w. snd (c x w) = w)"

section \<open>numpy and torch on arrays of one and two axes\<close>

text \<open>
  An instance of the library operations, for the concrete datasets below. The memory
  maps a reference to an array of one axis (a list of scalars) or of two axes (a list
  of rows). An object is an array, a row of an array of two axes (the view that
  indexing it returns), a scalar, or a tensor of no, one or two axes.
\<close>

type_synonym aref = nat

datatype 'v ndarray = A1 "'v list" | A2 "'v list list"

datatype 'v obj =
    Array aref
  | Row aref nat
  | Scalar 'v
  | Tensor0 'v
  | Tensor1 "'v list"
  | Tensor2 "'v list list"

text \<open>
  Indexing a list as \<^verbatim>\<open>a[index]\<close> does for an integer index: a negative index counts from
  the end, anything outside \<open>-n \<le> index < n\<close> raises \<^verbatim>\<open>IndexError\<close>.
\<close>

definition in_range :: "'a list \<Rightarrow> int \<Rightarrow> bool" where
  "in_range a index = (- int (length a) \<le> index \<and> index < int (length a))"

definition position :: "'a list \<Rightarrow> int \<Rightarrow> nat" where
  "position a index = nat (if index < 0 then int (length a) + index else index)"

definition py_index :: "'a list \<Rightarrow> int \<Rightarrow> error + 'a" where
  "py_index a index =
     (if in_range a index then Inr (a ! position a index) else Inl IndexError)"

text \<open>
  What a row view holds: the row of the array as it is now. numpy does not let an array
  with a live view change its shape in place; a memory in which the row is gone is
  reported as an error of the library.
\<close>

definition row_cells :: "(aref \<Rightarrow> 'v ndarray) \<Rightarrow> aref \<Rightarrow> nat \<Rightarrow> error + 'v list" where
  "row_cells m r p =
     (case m r of
        A1 xs \<Rightarrow> Inl (LibraryError ''stale view'')
      | A2 rows \<Rightarrow>
          if p < length rows then Inr (rows ! p) else Inl (LibraryError ''stale view''))"

definition list_shape0 :: "(aref \<Rightarrow> 'v ndarray) \<Rightarrow> 'v obj \<Rightarrow> error + nat" where
  "list_shape0 m a =
     (case a of
        Array r \<Rightarrow> (case m r of A1 xs \<Rightarrow> Inr (length xs) | A2 rows \<Rightarrow> Inr (length rows))
      | Row r p \<Rightarrow> (case row_cells m r p of Inl e \<Rightarrow> Inl e | Inr xs \<Rightarrow> Inr (length xs))
      | Scalar v \<Rightarrow> Inl IndexError
      | Tensor0 v \<Rightarrow> Inl IndexError
      | Tensor1 xs \<Rightarrow> Inr (length xs)
      | Tensor2 rows \<Rightarrow> Inr (length rows))"

definition list_getitem :: "(aref \<Rightarrow> 'v ndarray) \<Rightarrow> 'v obj \<Rightarrow> int \<Rightarrow> error + 'v obj" where
  "list_getitem m a index =
     (case a of
        Array r \<Rightarrow>
          (case m r of
             A1 xs \<Rightarrow> (case py_index xs index of Inl e \<Rightarrow> Inl e | Inr v \<Rightarrow> Inr (Scalar v))
           | A2 rows \<Rightarrow>
               if in_range rows index then Inr (Row r (position rows index))
               else Inl IndexError)
      | Row r p \<Rightarrow>
          (case row_cells m r p of
             Inl e \<Rightarrow> Inl e
           | Inr xs \<Rightarrow> (case py_index xs index of Inl e \<Rightarrow> Inl e | Inr v \<Rightarrow> Inr (Scalar v)))
      | Scalar v \<Rightarrow> Inl IndexError
      | Tensor0 v \<Rightarrow> Inl IndexError
      | Tensor1 xs \<Rightarrow> (case py_index xs index of Inl e \<Rightarrow> Inl e | Inr v \<Rightarrow> Inr (Tensor0 v))
      | Tensor2 rows \<Rightarrow>
          (case py_index rows index of Inl e \<Rightarrow> Inl e | Inr xs \<Rightarrow> Inr (Tensor1 xs)))"

definition list_tensor :: "(aref \<Rightarrow> 'v ndarray) \<Rightarrow> 'v obj \<Rightarrow> error + 'v obj" where
  "list_tensor m x =
     (case x of
        Array r \<Rightarrow> (case m r of A1 xs \<Rightarrow> Inr (Tensor1 xs) | A2 rows \<Rightarrow> Inr (Tensor2 rows))
      | Row r p \<Rightarrow> (case row_cells m r p of Inl e \<Rightarrow> Inl e | Inr xs \<Rightarrow> Inr (Tensor1 xs))
      | Scalar v \<Rightarrow> Inr (Tensor0 v)
      | Tensor0 v \<Rightarrow> Inr (Tensor0 v)
      | Tensor1 xs \<Rightarrow> Inr (Tensor1 xs)
      | Tensor2 rows \<Rightarrow> Inr (Tensor2 rows))"

definition list_numpy :: "(aref \<Rightarrow> 'v ndarray, 'v obj) nplib" where
  "list_numpy =
     \<lparr>np_shape0 = list_shape0, np_getitem = list_getitem, torch_tensor = list_tensor\<rparr>"

text \<open>\<^verbatim>\<open>a[...] = v\<close>: every scalar of the array is overwritten in place.\<close>

definition fill :: "(aref \<Rightarrow> 'v ndarray) \<Rightarrow> 'v obj \<Rightarrow> 'v \<Rightarrow> (aref \<Rightarrow> 'v ndarray)" where
  "fill m a v =
     (case a of
        Array r \<Rightarrow>
          m(r := (case m r of
                    A1 xs \<Rightarrow> A1 (map (\<lambda>u. v) xs)
                  | A2 rows \<Rightarrow> A2 (map (map (\<lambda>u. v)) rows)))
      | Row r p \<Rightarrow> m
      | Scalar u \<Rightarrow> m
      | Tensor0 u \<Rightarrow> m
      | Tensor1 xs \<Rightarrow> m
      | Tensor2 rows \<Rightarrow> m)"

section \<open>The index hints of the splitting cell\<close>

text \<open>
  \<^verbatim>\<open>
  background_indexes = np.where(trainval_labels == 0)
  foreground_indexes = np.where(trainval_labels == 1)
  \<close>
  \<^verbatim>\<open>trainval_labels\<close> is a one-dimensional integer array. Comparing it with a scalar
  gives the array of the entrywise comparisons; \<^verbatim>\<open>np.where\<close> of a one-dimensional boolean
  array gives a tuple of one array, the ascending indices of the true entries. The
  definitions below are that one array.
\<close>

definition eq_scalar :: "int list \<Rightarrow> int \<Rightarrow> bool list" where
  "eq_scalar a k = map (\<lambda>v. v = k) a"

definition np_where :: "bool list \<Rightarrow> nat list" where
  "np_where c = filter (\<lambda>i. c ! i) [0..<length c]"

definition background_indexes :: "int list \<Rightarrow> nat list" where
  "background_indexes trainval_labels = np_where (eq_scalar trainval_labels 0)"

definition foreground_indexes :: "int list \<Rightarrow> nat list" where
  "foreground_indexes trainval_labels = np_where (eq_scalar trainval_labels 1)"

section \<open>The network template\<close>

text \<open>
  \<^verbatim>\<open>model_fn\<close> builds \<^verbatim>\<open>nn.Sequential\<close> from 39 layer constructor calls; some arguments are
  the placeholder \<^verbatim>\<open>...\<close> (Ellipsis). The constructors belong to torch: they are the
  fields of the record \<open>nn\<close>, each returning a layer or raising. An argument is an
  integer, a float literal or the placeholder.
\<close>

datatype pyarg = PyInt int | PyFloat string | PyEllipsis

record 'l nn =
  Conv2d :: "pyarg \<Rightarrow> pyarg \<Rightarrow> pyarg \<Rightarrow> pyarg \<Rightarrow> error + 'l"
  BatchNorm2d :: "pyarg \<Rightarrow> error + 'l"
  BatchNorm1d :: "pyarg \<Rightarrow> error + 'l"
  ReLU :: "error + 'l"
  MaxPool2d :: "pyarg \<Rightarrow> error + 'l"
  Flatten :: "error + 'l"
  Linear :: "pyarg \<Rightarrow> pyarg \<Rightarrow> error + 'l"
  Dropout :: "pyarg \<Rightarrow> error + 'l"
  LogSoftmax :: "pyarg \<Rightarrow> error + 'l"
  Sequential :: "'l list \<Rightarrow> error + 'l"

text \<open>
  Python evaluates the arguments of a call from left to right and the first exception
  leaves the enclosing function: \<open>collect\<close> returns the first \<open>Inl\<close> of a list of
  results, or all the values.
\<close>

fun collect :: "(error + 'a) list \<Rightarrow> error + 'a list" where
  "collect [] = Inr []"
| "collect (c # cs) =
     (case c of
        Inl e \<Rightarrow> Inl e
      | Inr v \<Rightarrow> (case collect cs of Inl e \<Rightarrow> Inl e | Inr vs \<Rightarrow> Inr (v # vs)))"

text \<open>
  The arguments of \<^verbatim>\<open>nn.Sequential(...)\<close> in \<^verbatim>\<open>model_fn\<close>, in the order of the source.
  \<open>Conv2d\<close> takes \<^verbatim>\<open>in_channels\<close>, \<^verbatim>\<open>out_channels\<close>, \<^verbatim>\<open>kernel_size\<close>, \<^verbatim>\<open>padding\<close>; \<open>Linear\<close> takes
  \<^verbatim>\<open>in_features\<close>, \<^verbatim>\<open>out_features\<close>.
\<close>

definition layer_calls :: "'l nn \<Rightarrow> int \<Rightarrow> (error + 'l) list" where
  "layer_calls nn num_classes =
     [Conv2d nn (PyInt 3) (PyInt 32) (PyInt 3) (PyInt 1),
      BatchNorm2d nn (PyInt 32),
      ReLU nn,
      Conv2d nn PyEllipsis (PyInt 32) (PyInt 3) (PyInt 1),
      BatchNorm2d nn (PyInt 32),
      ReLU nn,
      MaxPool2d nn (PyInt 2),
      Conv2d nn (PyInt 32) (PyInt 64) (PyInt 3) (PyInt 1),
      BatchNorm2d nn (PyInt 64),
      ReLU nn,
      Conv2d nn (PyInt 64) (PyInt 64) (PyInt 3) (PyInt 1),
      BatchNorm2d nn (PyInt 64),
      ReLU nn,
      MaxPool2d nn (PyInt 2),
      Conv2d nn PyEllipsis (PyInt 128) (PyInt 3) (PyInt 1),
      BatchNorm2d nn (PyInt 128),
      ReLU nn,
      Conv2d nn PyEllipsis (PyInt 128) (PyInt 3) (PyInt 1),
      BatchNorm2d nn (PyInt 128),
      ReLU nn,
      MaxPool2d nn (PyInt 2),
      Conv2d nn (PyInt 128) (PyInt 128) (PyInt 3) (PyInt 1),
      BatchNorm2d nn (PyInt 128),
      ReLU nn,
      Conv2d nn PyEllipsis (PyInt 128) (PyInt 3) (PyInt 1),
      BatchNorm2d nn PyEllipsis,
      ReLU nn,
      MaxPool2d nn (PyInt 2),
      Flatten nn,
      Linear nn PyEllipsis (PyInt 256),
      BatchNorm1d nn PyEllipsis,
      ReLU nn,
      Dropout nn (PyFloat ''0.10''),
      Linear nn (PyInt 256) (PyInt 64),
      BatchNorm1d nn PyEllipsis,
      ReLU nn,
      Dropout nn (PyFloat ''0.10''),
      Linear nn (PyInt 64) (PyInt num_classes),
      LogSoftmax nn (PyInt (- 1))]"

definition model_fn :: "'l nn \<Rightarrow> int \<Rightarrow> error + 'l" where
  "model_fn nn num_classes =
     (case collect (layer_calls nn num_classes) of
        Inl e \<Rightarrow> Inl e
      | Inr layers \<Rightarrow> Sequential nn layers)"

text \<open>
  The caller is the rest of the cell, at the top level of the notebook:
  \<^verbatim>\<open>
  model_name = ...
  model = model_fn(num_classes=2)
  model.to(DEVICE)
  \<close>
  \<^verbatim>\<open>model.to\<close> is torch's; it is the parameter \<open>to_device\<close>. The cell has no
  \<^verbatim>\<open>try\<close>, so an exception of \<^verbatim>\<open>model_fn\<close> is the exception of the cell.
\<close>

definition define_model :: "'l nn \<Rightarrow> ('l \<Rightarrow> error + 'l) \<Rightarrow> error + 'l" where
  "define_model nn to_device =
     (case model_fn nn 2 of
        Inl e \<Rightarrow> Inl e
      | Inr model \<Rightarrow> (case to_device model of Inl e \<Rightarrow> Inl e | Inr _ \<Rightarrow> Inr model))"

section \<open>The handlers of the training engine\<close>

text \<open>
  A dictionary with string keys is a map; \<^verbatim>\<open>d[k]\<close> raises \<^verbatim>\<open>KeyError\<close> on a missing key.
\<close>

definition dict_get :: "(string \<rightharpoonup> 'a) \<Rightarrow> string \<Rightarrow> error + 'a" where
  "dict_get d k = (case d k of None \<Rightarrow> Inl (KeyError k) | Some v \<Rightarrow> Inr v)"

text \<open>
  \<^verbatim>\<open>
  def score_function(engine):
      val_loss = engine.state.metrics["nll"]
      return -val_loss
  \<close>
  The argument is the metrics dictionary of the engine's state; \<open>neg\<close> is the negation
  of the metric's number type.
\<close>

definition score_function :: "('v \<Rightarrow> 'v) \<Rightarrow> (string \<rightharpoonup> 'v) \<Rightarrow> error + 'v" where
  "score_function neg engine_state_metrics =
     (case dict_get engine_state_metrics ''nll'' of
        Inl e \<Rightarrow> Inl e
      | Inr val_loss \<Rightarrow> Inr (neg val_loss))"

text \<open>
  \<^verbatim>\<open>
  training_history = {"accuracy": [], "loss": []}
  validation_history = {"accuracy": [], "loss": []}
  last_epoch = []
  \<close>
  The three globals the logging handlers write, and the lines they print.
\<close>

record 'v logs =
  training_history :: "string \<rightharpoonup> 'v list"
  validation_history :: "string \<rightharpoonup> 'v list"
  last_epoch :: "int list"
  stdout :: "string list"

definition init_logs :: "'v logs" where
  "init_logs =
     \<lparr>training_history = [''accuracy'' \<mapsto> [], ''loss'' \<mapsto> []],
      validation_history = [''accuracy'' \<mapsto> [], ''loss'' \<mapsto> []],
      last_epoch = [],
      stdout = []\<rparr>"

text \<open>
  What the engine and the libraries supply when \<^verbatim>\<open>Events.EPOCH_COMPLETED\<close> fires: the
  epoch counter \<^verbatim>\<open>trainer.state.epoch\<close>, the outcome of the checkpoint handler (an
  exception or none), and for each evaluator the outcome of \<^verbatim>\<open>run\<close>: an exception, or
  the dictionary \<^verbatim>\<open>state.metrics\<close> it leaves.
\<close>

record 'v epoch_event =
  epoch :: nat
  checkpointer :: "error option"
  train_evaluator_run :: "error + (string \<rightharpoonup> 'v)"
  val_evaluator_run :: "error + (string \<rightharpoonup> 'v)"

text \<open>
  The arithmetic and the formatting of the metric's number type: \<open>mul v k\<close> is
  \<^verbatim>\<open>v * k\<close>, and \<open>format_results\<close> fills the format string of the printed line with the
  epoch, the accuracy and the loss.
\<close>

record 'v numlib =
  mul :: "'v \<Rightarrow> int \<Rightarrow> 'v"
  format_results :: "string \<Rightarrow> nat \<Rightarrow> 'v \<Rightarrow> 'v \<Rightarrow> string"

text \<open>
  \<^verbatim>\<open>
  @trainer.on(Events.EPOCH_COMPLETED)
  def log_training_results(trainer):
      train_evaluator.run(train_loader)
      metrics = train_evaluator.state.metrics
      accuracy = metrics["accuracy"] * 100
      loss = metrics["nll"]
      last_epoch.append(0)
      training_history["accuracy"].append(accuracy)
      training_history["loss"].append(loss)
      print("Training Results - Epoch: {}  Avg accuracy: {:.2f} Avg loss: {:.2f}".format(
          trainer.state.epoch, accuracy, loss))
  \<close>
\<close>

definition log_training_results ::
  "'v numlib \<Rightarrow> 'v epoch_event \<Rightarrow> 'v logs \<Rightarrow> error + 'v logs" where
  "log_training_results lib ev s =
     (case train_evaluator_run ev of
        Inl e \<Rightarrow> Inl e
      | Inr metrics \<Rightarrow>
     (case dict_get metrics ''accuracy'' of
        Inl e \<Rightarrow> Inl e
      | Inr a \<Rightarrow>
     (case dict_get metrics ''nll'' of
        Inl e \<Rightarrow> Inl e
      | Inr loss \<Rightarrow>
     (let accuracy = mul lib a 100;
          s1 = s\<lparr>last_epoch := last_epoch s @ [0]\<rparr>
      in
     (case dict_get (training_history s1) ''accuracy'' of
        Inl e \<Rightarrow> Inl e
      | Inr accs \<Rightarrow>
     (let s2 = s1\<lparr>training_history := (training_history s1)(''accuracy'' \<mapsto> accs @ [accuracy])\<rparr>
      in
     (case dict_get (training_history s2) ''loss'' of
        Inl e \<Rightarrow> Inl e
      | Inr losses \<Rightarrow>
     (let s3 = s2\<lparr>training_history := (training_history s2)(''loss'' \<mapsto> losses @ [loss])\<rparr>
      in Inr (s3\<lparr>stdout := stdout s3 @
            [format_results lib ''Training Results - Epoch: {}  Avg accuracy: {:.2f} Avg loss: {:.2f}''
               (epoch ev) accuracy loss]\<rparr>)))))))))"

text \<open>
  \<^verbatim>\<open>
  @trainer.on(Events.EPOCH_COMPLETED)
  def log_validation_results(trainer):
      val_evaluator.run(val_loader)
      metrics = val_evaluator.state.metrics
      accuracy = metrics["accuracy"] * 100
      loss = metrics["nll"]
      validation_history["accuracy"].append(accuracy)
      validation_history["loss"].append(loss)
      print("Validation Results - Epoch: {}  Avg accuracy: {:.2f} Avg loss: {:.2f}".format(
          trainer.state.epoch, accuracy, loss))
  \<close>
\<close>

definition log_validation_results ::
  "'v numlib \<Rightarrow> 'v epoch_event \<Rightarrow> 'v logs \<Rightarrow> error + 'v logs" where
  "log_validation_results lib ev s =
     (case val_evaluator_run ev of
        Inl e \<Rightarrow> Inl e
      | Inr metrics \<Rightarrow>
     (case dict_get metrics ''accuracy'' of
        Inl e \<Rightarrow> Inl e
      | Inr a \<Rightarrow>
     (case dict_get metrics ''nll'' of
        Inl e \<Rightarrow> Inl e
      | Inr loss \<Rightarrow>
     (let accuracy = mul lib a 100
      in
     (case dict_get (validation_history s) ''accuracy'' of
        Inl e \<Rightarrow> Inl e
      | Inr accs \<Rightarrow>
     (let s1 = s\<lparr>validation_history := (validation_history s)(''accuracy'' \<mapsto> accs @ [accuracy])\<rparr>
      in
     (case dict_get (validation_history s1) ''loss'' of
        Inl e \<Rightarrow> Inl e
      | Inr losses \<Rightarrow>
     (let s2 = s1\<lparr>validation_history := (validation_history s1)(''loss'' \<mapsto> losses @ [loss])\<rparr>
      in Inr (s2\<lparr>stdout := stdout s2 @
            [format_results lib ''Validation Results - Epoch: {}  Avg accuracy: {:.2f} Avg loss: {:.2f}''
               (epoch ev) accuracy loss]\<rparr>)))))))))"

text \<open>
  The handlers of \<^verbatim>\<open>Events.EPOCH_COMPLETED\<close> run in the order of their registration: the
  checkpoint handler (\<^verbatim>\<open>trainer.add_event_handler\<close>), then \<^verbatim>\<open>log_training_results\<close>, then
  \<^verbatim>\<open>log_validation_results\<close>. An exception of one of them ends the run. A run of the
  trainer over several epochs fires the event once for each completed epoch.
\<close>

definition epoch_completed ::
  "'v numlib \<Rightarrow> 'v epoch_event \<Rightarrow> 'v logs \<Rightarrow> error + 'v logs" where
  "epoch_completed lib ev s =
     (case checkpointer ev of
        Some e \<Rightarrow> Inl e
      | None \<Rightarrow>
         (case log_training_results lib ev s of
            Inl e \<Rightarrow> Inl e
          | Inr s1 \<Rightarrow> log_validation_results lib ev s1))"

fun run_epochs :: "'v numlib \<Rightarrow> 'v logs \<Rightarrow> 'v epoch_event list \<Rightarrow> error + 'v logs" where
  "run_epochs lib s [] = Inr s"
| "run_epochs lib s (ev # evs) =
     (case epoch_completed lib ev s of
        Inl e \<Rightarrow> Inl e
      | Inr s1 \<Rightarrow> run_epochs lib s1 evs)"

text \<open>The lengths of the four history lists, \<open>None\<close> for a missing key.\<close>

definition history_lengths :: "'v logs \<Rightarrow> nat option list" where
  "history_lengths s =
     [map_option length (training_history s ''accuracy''),
      map_option length (training_history s ''loss''),
      map_option length (validation_history s ''accuracy''),
      map_option length (validation_history s ''loss'')]"

text \<open>The four history lists all have length \<open>n\<close>.\<close>

definition equal_lengths :: "'v logs \<Rightarrow> nat \<Rightarrow> bool" where
  "equal_lengths s n = (history_lengths s = [Some n, Some n, Some n, Some n])"

text \<open>
  A list has grown by \<open>n\<close> appended entries: the new list is the old one followed by
  \<open>n\<close> more. \<open>appended\<close> says so of each of the four history lists.
\<close>

definition grown_by :: "'a list option \<Rightarrow> 'a list option \<Rightarrow> nat \<Rightarrow> bool" where
  "grown_by old new n =
     (case old of
        None \<Rightarrow> False
      | Some xs \<Rightarrow>
         (case new of
            None \<Rightarrow> False
          | Some zs \<Rightarrow> length zs = length xs + n \<and> take (length xs) zs = xs))"

definition appended :: "'v logs \<Rightarrow> 'v logs \<Rightarrow> nat \<Rightarrow> bool" where
  "appended s0 s n =
     (grown_by (training_history s0 ''accuracy'') (training_history s ''accuracy'') n
      \<and> grown_by (training_history s0 ''loss'') (training_history s ''loss'') n
      \<and> grown_by (validation_history s0 ''accuracy'') (validation_history s ''accuracy'') n
      \<and> grown_by (validation_history s0 ''loss'') (validation_history s ''loss'') n)"

text \<open>
  No handler of the epoch raises: the checkpoint handler returns, and each evaluator
  run returns and leaves the metrics \<^verbatim>\<open>accuracy\<close> and \<^verbatim>\<open>nll\<close>.
\<close>

definition handlers_return :: "'v epoch_event \<Rightarrow> bool" where
  "handlers_return ev =
     (checkpointer ev = None
      \<and> (case train_evaluator_run ev of
            Inl e \<Rightarrow> False
          | Inr m \<Rightarrow> m ''accuracy'' \<noteq> None \<and> m ''nll'' \<noteq> None)
      \<and> (case val_evaluator_run ev of
            Inl e \<Rightarrow> False
          | Inr m \<Rightarrow> m ''accuracy'' \<noteq> None \<and> m ''nll'' \<noteq> None))"

section \<open>Sample values\<close>

text \<open>Concrete libraries, datasets and events, on integers, for the instances below.\<close>

text \<open>
  Four arrays: three images of two pixels, three scalar labels, three labels of two
  entries each, and a single scalar label.
\<close>

definition sample_memory :: "aref \<Rightarrow> int ndarray" where
  "sample_memory =
     (\<lambda>r. A1 [])
       (0 := A2 [[10, 11], [20, 21], [30, 31]],
        1 := A1 [0, 1, 0],
        2 := A2 [[0, 1], [1, 0], [0, 1]],
        3 := A1 [0])"

text \<open>
  Two callables. Reference 7 is \<^verbatim>\<open>def t(x): ds.labels[...] = 9; return torch.tensor(x)\<close>, which
  overwrites the stored labels in place; every other reference is \<^verbatim>\<open>torch.tensor\<close>
  itself, which is pure.
\<close>

definition sample_calls :: "fref \<Rightarrow> (aref \<Rightarrow> int ndarray, int obj) callable" where
  "sample_calls f x w =
     (if f = 7
      then (let m = fill (memory w) (labels (dataset w)) 9
            in (list_tensor m x, w\<lparr>memory := m\<rparr>))
      else (list_tensor (memory w) x, w))"

definition sample_world :: "(aref \<Rightarrow> int ndarray, int obj) world" where
  "sample_world =
     \<lparr>memory = sample_memory,
      dataset = NpArrayDataset_init (Array 0) (Array 1) (Some 5) None\<rparr>"

definition writing_world :: "(aref \<Rightarrow> int ndarray, int obj) world" where
  "writing_world =
     \<lparr>memory = sample_memory,
      dataset = NpArrayDataset_init (Array 0) (Array 2) (Some 7) None\<rparr>"

definition short_labels_world :: "(aref \<Rightarrow> int ndarray, int obj) world" where
  "short_labels_world =
     \<lparr>memory = sample_memory,
      dataset = NpArrayDataset_init (Array 0) (Array 3) None None\<rparr>"

definition sample_nn :: "string nn" where
  "sample_nn =
     \<lparr>Conv2d = (\<lambda>i out k p. if i = PyEllipsis then Inl (LibraryError ''TypeError'') else Inr ''Conv2d''),
      BatchNorm2d = (\<lambda>n. Inr ''BatchNorm2d''),
      BatchNorm1d = (\<lambda>n. Inr ''BatchNorm1d''),
      ReLU = Inr ''ReLU'',
      MaxPool2d = (\<lambda>k. Inr ''MaxPool2d''),
      Flatten = Inr ''Flatten'',
      Linear = (\<lambda>i out. Inr ''Linear''),
      Dropout = (\<lambda>p. Inr ''Dropout''),
      LogSoftmax = (\<lambda>d. Inr ''LogSoftmax''),
      Sequential = (\<lambda>ls. Inr (concat ls))\<rparr>"

definition sample_lib :: "int numlib" where
  "sample_lib = \<lparr>mul = (\<lambda>v k. v * k), format_results = (\<lambda>f n a l. f)\<rparr>"

definition sample_event :: "nat \<Rightarrow> int epoch_event" where
  "sample_event n =
     \<lparr>epoch = n, checkpointer = None,
      train_evaluator_run = Inr [''accuracy'' \<mapsto> 1, ''nll'' \<mapsto> 3, ''cm'' \<mapsto> 0],
      val_evaluator_run = Inr [''accuracy'' \<mapsto> 1, ''nll'' \<mapsto> 4, ''cm'' \<mapsto> 0]\<rparr>"

section \<open>Properties of the dataset wrapper\<close>

lemma py_index_nonneg:
  "0 \<le> index \<Longrightarrow> index < int (length a) \<Longrightarrow> py_index a index = Inr (a ! nat index)"
  by (simp add: py_index_def in_range_def position_def)

text \<open>In the instance, indexing an array returns exactly for the indices in range.\<close>

lemma list_getitem_returns_iff:
  "(\<exists>x. list_getitem m (Array r) index = Inr x)
     = (case list_shape0 m (Array r) of
          Inl e \<Rightarrow> False
        | Inr n \<Rightarrow> - int n \<le> index \<and> index < int n)"
  by (auto simp add: list_getitem_def list_shape0_def py_index_def in_range_def
      split: ndarray.splits)

lemma list_getitem_out_of_range:
  "list_shape0 m (Array r) = Inr n \<Longrightarrow> \<not> (- int n \<le> index \<and> index < int n)
     \<Longrightarrow> list_getitem m (Array r) index = Inl IndexError"
  by (auto simp add: list_getitem_def list_shape0_def py_index_def in_range_def
      split: ndarray.splits)

text \<open>
  C8. \<^verbatim>\<open>__len__\<close> is the size of the first axis of \<^verbatim>\<open>images\<close> and nothing else: the
  constructor stores whatever \<^verbatim>\<open>labels\<close> it is given, of any length, and the length of
  the dataset it builds is the number of images, whatever the labels are.
\<close>

theorem len_is_images_count:
  "NpArrayDataset_len np w = np_shape0 np (memory w) (images (dataset w))
   \<and> labels (NpArrayDataset_init imgs lbls img_tf lbl_tf) = lbls
   \<and> NpArrayDataset_len np (w\<lparr>dataset := NpArrayDataset_init imgs lbls img_tf lbl_tf\<rparr>)
       = np_shape0 np (memory w) imgs"
  by (simp add: NpArrayDataset_len_def NpArrayDataset_init_def)

text \<open>A dataset of three images and one label has length three.\<close>

lemma len_short_labels:
  "NpArrayDataset_len list_numpy short_labels_world = Inr 3"
  by (simp add: NpArrayDataset_len_def NpArrayDataset_init_def short_labels_world_def
      list_numpy_def list_shape0_def sample_memory_def)

text \<open>
  In such a dataset an index below the length can be out of range for the labels, and
  then \<^verbatim>\<open>__getitem__\<close> raises at \<^verbatim>\<open>self.labels[index]\<close>, whatever the callables are.
\<close>

lemma getitem_short_labels_raises:
  "fst (NpArrayDataset_getitem list_numpy calls short_labels_world 2) = Inl IndexError"
  by (simp add: NpArrayDataset_getitem_def NpArrayDataset_init_def short_labels_world_def
      list_numpy_def list_getitem_def sample_memory_def py_index_def in_range_def)

text \<open>
  C4, as stated, fails when the labels are shorter than the images: with three images
  and one label the index 2 is in range for the dataset (below \<^verbatim>\<open>__len__\<close>, and
  \<^verbatim>\<open>images[2]\<close> is the third image), and \<^verbatim>\<open>__getitem__\<close> returns no pair but raises
  \<^verbatim>\<open>IndexError\<close> at \<^verbatim>\<open>self.labels[index]\<close>.
\<close>

theorem getitem_in_range_counterexample:
  "NpArrayDataset_len list_numpy short_labels_world = Inr 3
   \<and> np_getitem list_numpy (memory short_labels_world)
        (images (dataset short_labels_world)) 2 = Inr (Row 0 2)
   \<and> fst (NpArrayDataset_getitem list_numpy sample_calls short_labels_world 2)
        = Inl IndexError"
  by (simp add: NpArrayDataset_len_def NpArrayDataset_getitem_def NpArrayDataset_init_def
      short_labels_world_def list_numpy_def list_shape0_def list_getitem_def sample_memory_def
      py_index_def in_range_def position_def)

text \<open>
  C4, amended. For an index in range for both arrays, so that \<^verbatim>\<open>self.images[index]\<close>
  returns \<open>x0\<close> and \<^verbatim>\<open>self.labels[index]\<close> returns \<open>y0\<close>, and when the two calls below
  return, \<^verbatim>\<open>__getitem__\<close> returns the pair \<open>(x, y)\<close>: \<open>x\<close> is what \<^verbatim>\<open>image_transforms\<close>
  returns on \<open>x0\<close> when the field is not \<^verbatim>\<open>None\<close>, and \<^verbatim>\<open>torch.tensor(x0)\<close> otherwise; \<open>y\<close> is
  what \<^verbatim>\<open>label_transforms\<close> returns on \<open>y0\<close> when that field is not \<^verbatim>\<open>None\<close>, and
  \<^verbatim>\<open>torch.tensor(y0)\<close> otherwise. The two calls are made in this order, the second in
  the world the first one left.
\<close>

theorem getitem_returns_pair:
  assumes "np_getitem np (memory w) (images (dataset w)) index = Inr x0"
    and "np_getitem np (memory w) (labels (dataset w)) index = Inr y0"
    and "(case image_transforms (dataset w) of
            Some f \<Rightarrow> calls f x0 w
          | None \<Rightarrow> (torch_tensor np (memory w) x0, w)) = (Inr x, w1)"
    and "(case label_transforms (dataset w1) of
            Some g \<Rightarrow> calls g y0 w1
          | None \<Rightarrow> (torch_tensor np (memory w1) y0, w1)) = (Inr y, w2)"
  shows "NpArrayDataset_getitem np calls w index = (Inr (x, y), w2)"
  using assms by (simp add: NpArrayDataset_getitem_def)

text \<open>
  The last item of a dataset whose labels have two entries each and whose image
  transform overwrites the stored labels with 9: the image is returned as it is stored,
  and the label tensor holds what the view of the labels holds after the image
  transform, 9 and 9.
\<close>

theorem getitem_returns_pair_witness:
  "np_getitem list_numpy (memory writing_world) (images (dataset writing_world)) (- 1)
     = Inr (Row 0 2)
   \<and> np_getitem list_numpy (memory writing_world) (labels (dataset writing_world)) (- 1)
     = Inr (Row 2 2)
   \<and> NpArrayDataset_getitem list_numpy sample_calls writing_world (- 1)
       = (Inr (Tensor1 [30, 31], Tensor1 [9, 9]),
          writing_world\<lparr>memory := fill sample_memory (Array 2) 9\<rparr>)"
  using getitem_returns_pair [where np = list_numpy and w = writing_world and index = "- 1"
      and calls = sample_calls and ?x0.0 = "Row 0 2" and ?y0.0 = "Row 2 2"
      and x = "Tensor1 [30, 31]" and y = "Tensor1 [9, 9]"
      and ?w1.0 = "writing_world\<lparr>memory := fill sample_memory (Array 2) 9\<rparr>"
      and ?w2.0 = "writing_world\<lparr>memory := fill sample_memory (Array 2) 9\<rparr>"]
  by (simp add: writing_world_def NpArrayDataset_init_def list_numpy_def list_getitem_def
      list_tensor_def row_cells_def fill_def sample_memory_def sample_calls_def
      in_range_def position_def)

text \<open>
  C9. When the transforms stored in the dataset are pure, \<^verbatim>\<open>__getitem__\<close> leaves the
  world as it was: the contents of the arrays and the four fields of the dataset
  object, the images, the labels and the two transforms. This holds for every index, in
  range or not (an \<^verbatim>\<open>IndexError\<close> changes nothing either).
\<close>

theorem getitem_leaves_dataset_unchanged:
  assumes "\<And>f. image_transforms (dataset w) = Some f \<Longrightarrow> pure_callable (calls f)"
    and "\<And>g. label_transforms (dataset w) = Some g \<Longrightarrow> pure_callable (calls g)"
  shows "snd (NpArrayDataset_getitem np calls w index) = w"
proof -
  have img: "snd (case image_transforms (dataset w) of
                    Some f \<Rightarrow> calls f x w
                  | None \<Rightarrow> (torch_tensor np (memory w) x, w)) = w" for x
    using assms(1) by (simp add: pure_callable_def split: option.splits)
  have lbl: "snd (case label_transforms (dataset w) of
                    Some g \<Rightarrow> calls g y w
                  | None \<Rightarrow> (torch_tensor np (memory w) y, w)) = w" for y
    using assms(2) by (simp add: pure_callable_def split: option.splits)
  show ?thesis
    unfolding NpArrayDataset_getitem_def
    using img lbl
    by (auto split: sum.splits prod.splits) (metis snd_conv)+
qed

theorem getitem_leaves_dataset_unchanged_witness:
  "pure_callable (sample_calls 5)
   \<and> snd (NpArrayDataset_getitem list_numpy sample_calls sample_world 1) = sample_world"
  using getitem_leaves_dataset_unchanged [where w = sample_world and calls = sample_calls
      and np = list_numpy and index = 1]
  by (simp add: pure_callable_def sample_calls_def sample_world_def NpArrayDataset_init_def)

text \<open>
  A callable that is not pure does change the world: reference 7 overwrites the
  labels.
\<close>

lemma getitem_impure_transform_changes_dataset:
  "snd (NpArrayDataset_getitem list_numpy sample_calls writing_world 1) \<noteq> writing_world"
proof -
  have "memory (snd (NpArrayDataset_getitem list_numpy sample_calls writing_world 1)) 2
          = A2 [[9, 9], [9, 9], [9, 9]]"
    by (simp add: NpArrayDataset_getitem_def writing_world_def NpArrayDataset_init_def
        list_numpy_def list_getitem_def list_tensor_def row_cells_def fill_def
        sample_memory_def sample_calls_def in_range_def position_def)
  moreover have "memory writing_world 2 = A2 [[0, 1], [1, 0], [0, 1]]"
    by (simp add: writing_world_def sample_memory_def)
  ultimately show ?thesis by auto
qed

section \<open>Properties of the index hints\<close>

lemma set_np_where: "set (np_where c) = {i. i < length c \<and> c ! i}"
  by (auto simp add: np_where_def)

lemma set_background_indexes:
  "set (background_indexes ls) = {i. i < length ls \<and> ls ! i = 0}"
  by (auto simp add: background_indexes_def eq_scalar_def set_np_where)

lemma set_foreground_indexes:
  "set (foreground_indexes ls) = {i. i < length ls \<and> ls ! i = 1}"
  by (auto simp add: foreground_indexes_def eq_scalar_def set_np_where)

text \<open>
  C7. When every label is 0 or 1, the background indices and the foreground indices
  partition the indices of the label array: the two sets are disjoint, together they
  are all the indices, and so every index is in exactly one of them.
\<close>

theorem indexes_partition:
  assumes "\<forall>l \<in> set trainval_labels. l = 0 \<or> l = 1"
  shows "set (background_indexes trainval_labels) \<inter> set (foreground_indexes trainval_labels) = {}
    \<and> set (background_indexes trainval_labels) \<union> set (foreground_indexes trainval_labels)
        = {..<length trainval_labels}
    \<and> (\<forall>i < length trainval_labels.
          (i \<in> set (background_indexes trainval_labels))
            \<noteq> (i \<in> set (foreground_indexes trainval_labels)))"
  using assms by (auto simp add: set_background_indexes set_foreground_indexes)

theorem indexes_partition_witness:
  "list_all (\<lambda>l. l = 0 \<or> l = 1) [0, 1, 0, 0, 1 :: int]
   \<and> set (background_indexes [0, 1, 0, 0, 1]) \<inter> set (foreground_indexes [0, 1, 0, 0, 1]) = {}
   \<and> set (background_indexes [0, 1, 0, 0, 1]) \<union> set (foreground_indexes [0, 1, 0, 0, 1]) = {..<5}"
  using indexes_partition [of "[0, 1, 0, 0, 1]"] by simp

text \<open>With a label that is neither 0 nor 1, its index is in neither set.\<close>

lemma indexes_miss_other_label:
  "1 \<notin> set (background_indexes [0, 2, 1]) \<union> set (foreground_indexes [0, 2, 1])"
  by (simp add: set_background_indexes set_foreground_indexes)

section \<open>Properties of the network template\<close>

lemma collect_Inl_mem: "collect cs = Inl e \<Longrightarrow> Inl e \<in> set cs"
  by (induction cs) (auto split: sum.splits)

lemma collect_has_error: "Inl e \<in> set cs \<Longrightarrow> \<exists>e'. collect cs = Inl e'"
  by (induction cs) (auto split: sum.splits)

lemma blank_in_layer_calls:
  "Conv2d nn PyEllipsis (PyInt 32) (PyInt 3) (PyInt 1) \<in> set (layer_calls nn num_classes)"
  by (simp add: layer_calls_def)

text \<open>
  When the three constructor calls before the first blank return, the exception of
  \<^verbatim>\<open>model_fn\<close> is the very exception of the call with the blank.
\<close>

lemma model_fn_first_blank:
  assumes "Conv2d nn (PyInt 3) (PyInt 32) (PyInt 3) (PyInt 1) = Inr l1"
    and "BatchNorm2d nn (PyInt 32) = Inr l2" and "ReLU nn = Inr l3"
    and "Conv2d nn PyEllipsis (PyInt 32) (PyInt 3) (PyInt 1) = Inl e"
  shows "model_fn nn num_classes = Inl e"
  using assms by (simp add: model_fn_def layer_calls_def)

text \<open>
  C6. If the constructor \<^verbatim>\<open>nn.Conv2d\<close> raises on the placeholder \<^verbatim>\<open>in_channels=...\<close> of the
  fourth layer, then \<^verbatim>\<open>model_fn\<close> raises, the exception it raises is one that a layer
  constructor call raised, unchanged, and the cell that calls \<^verbatim>\<open>model_fn\<close> ends with the
  same exception: nothing between the constructor and the top level of the notebook
  catches it.
\<close>

theorem model_fn_blank_raises:
  assumes "Conv2d nn PyEllipsis (PyInt 32) (PyInt 3) (PyInt 1) = Inl e"
  shows "(\<exists>e'. Inl e' \<in> set (layer_calls nn num_classes) \<and> model_fn nn num_classes = Inl e')
    \<and> define_model nn to_device = model_fn nn 2"
proof -
  have raises: "\<exists>e'. Inl e' \<in> set (layer_calls nn k) \<and> model_fn nn k = Inl e'" for k
  proof -
    have "Inl e \<in> set (layer_calls nn k)"
      using blank_in_layer_calls [of nn k] assms by simp
    then obtain e' where e': "collect (layer_calls nn k) = Inl e'"
      using collect_has_error by blast
    then have "Inl e' \<in> set (layer_calls nn k)"
      by (rule collect_Inl_mem)
    moreover have "model_fn nn k = Inl e'"
      by (simp add: model_fn_def e')
    ultimately show ?thesis by blast
  qed
  from raises [of 2] have "define_model nn to_device = model_fn nn 2"
    by (auto simp add: define_model_def)
  with raises [of num_classes] show ?thesis by blast
qed

theorem model_fn_blank_raises_witness:
  "Conv2d sample_nn PyEllipsis (PyInt 32) (PyInt 3) (PyInt 1) = Inl (LibraryError ''TypeError'')
   \<and> model_fn sample_nn 2 = Inl (LibraryError ''TypeError'')
   \<and> define_model sample_nn Inr = Inl (LibraryError ''TypeError'')"
  using model_fn_blank_raises [of sample_nn "LibraryError ''TypeError''" 2 Inr]
    model_fn_first_blank [of sample_nn _ _ _ "LibraryError ''TypeError''" 2]
  by (simp add: sample_nn_def)

section \<open>Properties of the handlers\<close>

text \<open>
  The score of the early-stopping handler is the negated \<^verbatim>\<open>nll\<close> metric, and a
  \<^verbatim>\<open>KeyError\<close> when the metric is missing.
\<close>

lemma score_function_nll:
  "score_function neg m =
     (case m ''nll'' of
        None \<Rightarrow> Inl (KeyError ''nll'')
      | Some val_loss \<Rightarrow> Inr (neg val_loss))"
  by (simp add: score_function_def dict_get_def split: option.splits)

lemma log_training_results_appends:
  assumes "log_training_results lib ev s = Inr s'"
  shows "\<exists>ta tl a l.
      training_history s ''accuracy'' = Some ta \<and> training_history s ''loss'' = Some tl
      \<and> training_history s' ''accuracy'' = Some (ta @ [a])
      \<and> training_history s' ''loss'' = Some (tl @ [l])
      \<and> validation_history s' = validation_history s"
  using assms
  by (auto simp add: log_training_results_def dict_get_def Let_def
      split: sum.splits option.splits)

lemma log_validation_results_appends:
  assumes "log_validation_results lib ev s = Inr s'"
  shows "\<exists>va vl a l.
      validation_history s ''accuracy'' = Some va \<and> validation_history s ''loss'' = Some vl
      \<and> validation_history s' ''accuracy'' = Some (va @ [a])
      \<and> validation_history s' ''loss'' = Some (vl @ [l])
      \<and> training_history s' = training_history s"
  using assms
  by (auto simp add: log_validation_results_def dict_get_def Let_def
      split: sum.splits option.splits)

text \<open>
  When the handlers of a completed epoch have all returned, each of the four lists is
  the list before the epoch with one entry appended.
\<close>

lemma epoch_completed_appends:
  assumes "epoch_completed lib ev s = Inr s'"
  shows "\<exists>ta tl va vl a l a' l'.
      training_history s ''accuracy'' = Some ta \<and> training_history s ''loss'' = Some tl
      \<and> validation_history s ''accuracy'' = Some va \<and> validation_history s ''loss'' = Some vl
      \<and> training_history s' ''accuracy'' = Some (ta @ [a])
      \<and> training_history s' ''loss'' = Some (tl @ [l])
      \<and> validation_history s' ''accuracy'' = Some (va @ [a'])
      \<and> validation_history s' ''loss'' = Some (vl @ [l'])"
proof -
  from assms obtain s1 where t: "log_training_results lib ev s = Inr s1"
    and v: "log_validation_results lib ev s1 = Inr s'"
    by (auto simp add: epoch_completed_def split: option.splits sum.splits)
  from log_training_results_appends [OF t] log_validation_results_appends [OF v]
  show ?thesis by (elim exE conjE) simp
qed

lemma epoch_completed_lengths:
  assumes "epoch_completed lib ev s = Inr s'" and "equal_lengths s k"
  shows "equal_lengths s' (Suc k)"
  using epoch_completed_appends [OF assms(1)] assms(2)
  by (auto simp add: equal_lengths_def history_lengths_def)

lemma init_logs_lengths: "equal_lengths init_logs 0"
  by (simp add: equal_lengths_def history_lengths_def init_logs_def)

text \<open>The handlers of an epoch return when nothing they call raises.\<close>

lemma epoch_completed_returns:
  assumes "handlers_return ev" and "equal_lengths s k"
  shows "\<exists>s'. epoch_completed lib ev s = Inr s'"
  using assms
  by (auto simp add: handlers_return_def equal_lengths_def history_lengths_def
      epoch_completed_def log_training_results_def log_validation_results_def dict_get_def
      Let_def split: sum.splits option.splits)

lemma run_epochs_returns:
  assumes "list_all handlers_return evs" and "equal_lengths s0 k"
  shows "\<exists>s. run_epochs lib s0 evs = Inr s"
  using assms
proof (induction evs arbitrary: s0 k)
  case Nil
  then show ?case by simp
next
  case (Cons ev evs)
  then obtain s1 where step: "epoch_completed lib ev s0 = Inr s1"
    using epoch_completed_returns by fastforce
  have "equal_lengths s1 (Suc k)"
    using epoch_completed_lengths [OF step Cons.prems(2)] .
  with Cons step show ?case by fastforce
qed

lemma grown_by_trans:
  assumes "grown_by a b m" and "grown_by b c n"
  shows "grown_by a c (m + n)"
proof -
  from assms obtain xs ys zs where a: "a = Some xs" and b: "b = Some ys" and c: "c = Some zs"
    by (auto simp add: grown_by_def split: option.splits)
  from assms have l1: "length ys = length xs + m" and t1: "take (length xs) ys = xs"
    and l2: "length zs = length ys + n" and t2: "take (length ys) zs = ys"
    by (simp_all add: grown_by_def a b c)
  have "take (length xs) zs = take (length xs) (take (length ys) zs)"
    using l1 by (simp add: min_def)
  then have "take (length xs) zs = xs"
    by (simp only: t2 t1)
  then show ?thesis
    using l1 l2 by (simp add: grown_by_def a c)
qed

lemma appended_trans: "appended a b m \<Longrightarrow> appended b c n \<Longrightarrow> appended a c (m + n)"
  by (auto simp add: appended_def intro: grown_by_trans)

lemma equal_lengths_appended_refl: "equal_lengths s k \<Longrightarrow> appended s s 0"
  by (auto simp add: equal_lengths_def history_lengths_def appended_def grown_by_def)

lemma epoch_completed_appended:
  assumes "epoch_completed lib ev s = Inr s'"
  shows "appended s s' 1"
  using epoch_completed_appends [OF assms]
  by (auto simp add: appended_def grown_by_def)

text \<open>
  C10, as stated, fails inside the handling of a completed epoch: when
  \<^verbatim>\<open>log_training_results\<close> has returned in the first epoch and \<^verbatim>\<open>log_validation_results\<close> has
  not yet appended (the validation pass runs in between), the two training lists have
  one entry and the two validation lists have none, so the four lengths are neither
  equal nor the number of completed epochs, whether that is counted as 0 or as 1.
\<close>

theorem history_lengths_counterexample:
  "map_sum id history_lengths (log_training_results sample_lib (sample_event 1) init_logs)
     = Inr [Some 1, Some 1, Some 0, Some 0]
   \<and> \<not> equal_lengths (projr (log_training_results sample_lib (sample_event 1) init_logs)) 0
   \<and> \<not> equal_lengths (projr (log_training_results sample_lib (sample_event 1) init_logs)) 1"
  by (simp add: equal_lengths_def history_lengths_def log_training_results_def
      sample_lib_def sample_event_def init_logs_def dict_get_def)

text \<open>
  C10, amended. When the handlers of every completed epoch have returned, each epoch
  has appended exactly one entry to each of the four history lists: every list is the
  list before the run followed by as many entries as epochs were completed, and lists
  of equal length \<open>k\<close> before have equal length \<open>k\<close> plus the number of completed epochs
  after. The lists start empty, so after the handlers of \<open>n\<close> completed epochs their
  common length is \<open>n\<close>.
\<close>

theorem history_grows_with_epochs:
  assumes "run_epochs lib s0 evs = Inr s" and "equal_lengths s0 k"
  shows "appended s0 s (length evs) \<and> equal_lengths s (k + length evs)"
  using assms
proof (induction evs arbitrary: s0 k)
  case Nil
  then show ?case by (simp add: equal_lengths_appended_refl)
next
  case (Cons ev evs)
  from Cons.prems(1) obtain s1 where step: "epoch_completed lib ev s0 = Inr s1"
    and rest: "run_epochs lib s1 evs = Inr s"
    by (auto split: sum.splits)
  have len1: "equal_lengths s1 (Suc k)"
    using epoch_completed_lengths [OF step Cons.prems(2)] .
  from Cons.IH [OF rest len1]
  have app: "appended s1 s (length evs)" and len: "equal_lengths s (Suc k + length evs)"
    by simp_all
  from appended_trans [OF epoch_completed_appended [OF step] app]
  have "appended s0 s (length (ev # evs))" by simp
  with len show ?case by simp
qed

text \<open>Two epochs from the empty lists: every list has two entries.\<close>

theorem history_grows_with_epochs_witness:
  "equal_lengths (init_logs :: int logs) 0
   \<and> appended init_logs
        (projr (run_epochs sample_lib init_logs [sample_event 1, sample_event 2])) 2
   \<and> equal_lengths (projr (run_epochs sample_lib init_logs [sample_event 1, sample_event 2])) 2"
proof -
  obtain s where s: "run_epochs sample_lib init_logs [sample_event 1, sample_event 2] = Inr s"
    using run_epochs_returns [of "[sample_event 1, sample_event 2]" init_logs 0 sample_lib]
      init_logs_lengths
    by (auto simp add: handlers_return_def sample_event_def)
  have "appended init_logs s (length [sample_event 1, sample_event 2])
        \<and> equal_lengths s (0 + length [sample_event 1, sample_event 2])"
    using s init_logs_lengths by (rule history_grows_with_epochs)
  then have "appended init_logs s 2 \<and> equal_lengths s 2"
    by (simp add: numeral_2_eq_2)
  moreover have "projr (run_epochs sample_lib init_logs [sample_event 1, sample_event 2]) = s"
    by (simp only: s sum.sel)
  ultimately show ?thesis
    using init_logs_lengths by (simp only: simp_thms)
qed

end
